theory Spec2Isabelle
  imports Main
begin

section \<open>JavaScript strings\<close>

text \<open>
  A JavaScript string is a sequence of UTF-16 code units; \<open>fs.readFileSync(p, 'utf8')\<close>
  returns such a sequence.  A code unit is modelled as a natural number, so that the
  whitespace of \<open>trim\<close> and \<open>\s\<close> beyond Latin-1 (the byte order mark, the line and
  paragraph separators, ...) is part of the model.  \<open>js\<close> embeds a literal of the script.
\<close>

type_synonym jsstring = "nat list"

definition js :: "string \<Rightarrow> jsstring" where
  "js s = map of_char s"

text \<open>WhiteSpace and LineTerminator of ECMAScript: what \<open>String.prototype.trim\<close> strips
  and what \<open>\s\<close> matches.\<close>

definition isWhiteSpace :: "nat \<Rightarrow> bool" where
  "isWhiteSpace c \<longleftrightarrow>
     c = 0x09 \<or> c = 0x0A \<or> c = 0x0B \<or> c = 0x0C \<or> c = 0x0D \<or> c = 0x20 \<or> c = 0xA0 \<or>
     c = 0x1680 \<or> (0x2000 \<le> c \<and> c \<le> 0x200A) \<or> c = 0x2028 \<or> c = 0x2029 \<or>
     c = 0x202F \<or> c = 0x205F \<or> c = 0x3000 \<or> c = 0xFEFF"

text \<open>LineTerminator: the code units that \<open>.\<close> does not match (no \<open>s\<close> flag).\<close>

definition isLineTerminator :: "nat \<Rightarrow> bool" where
  "isLineTerminator c \<longleftrightarrow> c = 0x0A \<or> c = 0x0D \<or> c = 0x2028 \<or> c = 0x2029"

text \<open>\<open>\w\<close> is \<open>[A-Za-z0-9_]\<close> and \<open>\d\<close> is \<open>[0-9]\<close> (no \<open>u\<close> or \<open>i\<close> flag).\<close>

definition isDigit :: "nat \<Rightarrow> bool" where
  "isDigit c \<longleftrightarrow> 0x30 \<le> c \<and> c \<le> 0x39"

definition isWordChar :: "nat \<Rightarrow> bool" where
  "isWordChar c \<longleftrightarrow>
     (0x41 \<le> c \<and> c \<le> 0x5A) \<or> (0x61 \<le> c \<and> c \<le> 0x7A) \<or> isDigit c \<or> c = 0x5F"

definition trim :: "jsstring \<Rightarrow> jsstring" where
  "trim s = rev (dropWhile isWhiteSpace (rev (dropWhile isWhiteSpace s)))"

text \<open>\<open>s.split('\n')\<close>: the pieces between the separators; the empty string gives one
  empty piece.  \<open>cur\<close> is the piece being read.\<close>

fun splitFrom :: "nat \<Rightarrow> jsstring \<Rightarrow> jsstring \<Rightarrow> jsstring list" where
  "splitFrom sep cur [] = [cur]"
| "splitFrom sep cur (c # cs) =
     (if c = sep then cur # splitFrom sep [] cs else splitFrom sep (cur @ [c]) cs)"

definition splitLines :: "jsstring \<Rightarrow> jsstring list" where
  "splitLines s = splitFrom 0x0A [] s"

text \<open>\<open>xs.join('\n')\<close>; the empty array gives the empty string.\<close>

fun joinLines :: "jsstring list \<Rightarrow> jsstring" where
  "joinLines [] = []"
| "joinLines [x] = x"
| "joinLines (x # y # ys) = x @ 0x0A # joinLines (y # ys)"

section \<open>The file system\<close>

text \<open>What the script sees of a path: nothing there, something that cannot be read as a
  file (a directory, no permission), or a file with its content.\<close>

datatype fileState = Missing | Unreadable | Readable jsstring

type_synonym filesystem = "jsstring \<Rightarrow> fileState"

definition existsSync :: "filesystem \<Rightarrow> jsstring \<Rightarrow> bool" where
  "existsSync fs filePath \<longleftrightarrow> fs filePath \<noteq> Missing"

text \<open>\<open>fs.readFileSync\<close> throws unless the content can be read; \<open>None\<close> is the throw.\<close>

definition readFileSync :: "filesystem \<Rightarrow> jsstring \<Rightarrow> jsstring option" where
  "readFileSync fs filePath = (case fs filePath of Readable content \<Rightarrow> Some content | _ \<Rightarrow> None)"

section \<open>extractFrontmatter\<close>

definition isDelimiter :: "jsstring \<Rightarrow> bool" where
  "isDelimiter line \<longleftrightarrow> trim line = js ''---''"

text \<open>The variables of the \<open>for\<close> loop of \<open>extractFrontmatter\<close>.\<close>

record scan =
  inFrontmatter :: bool
  frontmatterLines :: "jsstring list"
  delimiterCount :: nat

text \<open>The second \<open>if\<close> of the loop body, which ends the iteration.  The flag of the
  result says whether the loop was left by \<open>break\<close>.\<close>

definition collectLine :: "scan \<Rightarrow> jsstring \<Rightarrow> scan \<times> bool" where
  "collectLine s line =
     (if inFrontmatter s \<and> delimiterCount s = 1
      then (s\<lparr>frontmatterLines := frontmatterLines s @ [line]\<rparr>, False)
      else (s, False))"

text \<open>One iteration: \<open>continue\<close> after the first delimiter, \<open>break\<close> at the second, and
  otherwise on to the second \<open>if\<close>.\<close>

definition scanStep :: "scan \<Rightarrow> jsstring \<Rightarrow> scan \<times> bool" where
  "scanStep s line =
     (if isDelimiter line then
        (let s1 = s\<lparr>delimiterCount := delimiterCount s + 1\<rparr> in
         if delimiterCount s1 = 1 then (s1\<lparr>inFrontmatter := True\<rparr>, False)
         else if delimiterCount s1 = 2 then (s1, True)
         else collectLine s1 line)
      else collectLine s line)"

fun scanLines :: "scan \<Rightarrow> jsstring list \<Rightarrow> scan" where
  "scanLines s [] = s"
| "scanLines s (line # rest) =
     (if snd (scanStep s line) then fst (scanStep s line)
      else scanLines (fst (scanStep s line)) rest)"

text \<open>The body of the \<open>try\<close> block, on the content read.\<close>

definition frontmatterOf :: "jsstring \<Rightarrow> jsstring" where
  "frontmatterOf content =
     joinLines (frontmatterLines
       (scanLines \<lparr>inFrontmatter = False, frontmatterLines = [], delimiterCount = 0\<rparr>
          (splitLines content)))"

text \<open>\<open>None\<close> is the \<open>null\<close> returned by the \<open>catch\<close> branch.\<close>

definition extractFrontmatter :: "filesystem \<Rightarrow> jsstring \<Rightarrow> jsstring option" where
  "extractFrontmatter fs filePath =
     (case readFileSync fs filePath of
        None \<Rightarrow> None
      | Some content \<Rightarrow> Some (frontmatterOf content))"

section \<open>validateMetadata\<close>

subsection \<open>The regular expressions\<close>

text \<open>
  \<open>line.match(/^(\w+):\s*(.*)$/)\<close>.  \<open>\w+\<close> takes the longest run of word characters (a
  shorter run would be followed by a word character, not by the colon); \<open>\s*\<close> takes the
  longest run of whitespace (a shorter run leaves more for \<open>.*\<close>, which fails on the same
  line terminator); \<open>.*\<close> must reach the end of the string, there being no \<open>m\<close> flag, and
  matches no line terminator.  The result is the pair of the two groups.
\<close>

definition matchField :: "jsstring \<Rightarrow> (jsstring \<times> jsstring) option" where
  "matchField line =
     (let key = takeWhile isWordChar line in
      if key = [] then None
      else (case dropWhile isWordChar line of
              [] \<Rightarrow> None
            | c # afterColon \<Rightarrow>
                if c \<noteq> 0x3A then None
                else (let val = dropWhile isWhiteSpace afterColon in
                      if list_ex isLineTerminator val then None else Some (key, val))))"

text \<open>\<open>/^\[\s*\]$/.test(tagsValue)\<close>\<close>

definition emptyArrayPattern :: "jsstring \<Rightarrow> bool" where
  "emptyArrayPattern s =
     (case s of [] \<Rightarrow> False | c # cs \<Rightarrow> c = 0x5B \<and> dropWhile isWhiteSpace cs = [0x5D])"

text \<open>\<open>/^\d{4}-\d{2}-\d{2}$/.test(dateValue)\<close>\<close>

definition datePattern :: "jsstring \<Rightarrow> bool" where
  "datePattern s =
     (case s of
        [y1, y2, y3, y4, h1, m1, m2, h2, d1, d2] \<Rightarrow>
          isDigit y1 \<and> isDigit y2 \<and> isDigit y3 \<and> isDigit y4 \<and> h1 = 0x2D \<and>
          isDigit m1 \<and> isDigit m2 \<and> h2 = 0x2D \<and> isDigit d1 \<and> isDigit d2
      | _ \<Rightarrow> False)"

text \<open>\<open>.replace(/['"]/g, '')\<close>: every quote character goes, wherever it stands.\<close>

definition removeQuotes :: "jsstring \<Rightarrow> jsstring" where
  "removeQuotes s = filter (\<lambda>c. c \<noteq> 0x27 \<and> c \<noteq> 0x22) s"

subsection \<open>Dates of the runtime\<close>

text \<open>
  A \<open>Date\<close> holds a time value: milliseconds since 1970-01-01T00:00:00Z.  The functions
  below are those of the ECMAScript specification (Day, DayFromYear, MakeDay, LocalTime,
  UTC), on integers.
\<close>

definition msPerDay :: int where
  "msPerDay = 86400000"

definition dayFromYear :: "int \<Rightarrow> int" where
  "dayFromYear y = 365 * (y - 1970) + (y - 1969) div 4 - (y - 1901) div 100 + (y - 1601) div 400"

definition inLeapYear :: "int \<Rightarrow> bool" where
  "inLeapYear y \<longleftrightarrow> (y mod 4 = 0 \<and> y mod 100 \<noteq> 0) \<or> y mod 400 = 0"

text \<open>Days of the year before the first of month \<open>m\<close> (1 to 12).\<close>

definition daysBeforeMonth :: "int \<Rightarrow> int \<Rightarrow> int" where
  "daysBeforeMonth y m =
     [0, 31, 59, 90, 120, 151, 181, 212, 243, 273, 304, 334] ! nat (m - 1)
       + (if inLeapYear y \<and> 3 \<le> m then 1 else 0)"

text \<open>MakeDay for a month from 1 to 12: the day number of the first of the month, plus
  the day of the month less one (a day past the end of the month runs into the next).\<close>

definition makeDay :: "int \<Rightarrow> int \<Rightarrow> int \<Rightarrow> int" where
  "makeDay y m d = dayFromYear y + daysBeforeMonth y m + d - 1"

definition digitValue :: "nat \<Rightarrow> int" where
  "digitValue c = int c - 0x30"

text \<open>
  What the process takes from its surroundings.  \<open>now\<close> is the time value of
  \<open>new Date()\<close>.  \<open>localTZA\<close> is the offset of local time from UTC, in milliseconds and
  positive east of Greenwich, in force at \<open>now\<close>; \<open>midnightTZA\<close> is the offset in force at
  the local midnight that began the current local day (the two differ on the day of a
  daylight-saving change).  \<open>legacyParse\<close> is the fallback date parser of the runtime, see
  \<open>parseDate\<close>.
\<close>

record env =
  now :: int
  localTZA :: int
  midnightTZA :: int
  legacyParse :: "jsstring \<Rightarrow> int option"

text \<open>
  \<open>new Date(dateValue).getTime()\<close> as Node.js (V8) computes it; \<open>None\<close> is NaN.  A string
  of the shape \<open>YYYY-MM-DD\<close> with a month from 01 to 12 and a day from 01 to 31 is the
  date-only form of ECMAScript: UTC midnight of that date.  Any other string goes to the
  legacy parser of V8, which rejects most of them but reads some (\<open>0005-13-20\<close> as a
  month-day-year date in local time); its result is not computed here but taken from the
  environment.
\<close>

definition parseDate :: "env \<Rightarrow> jsstring \<Rightarrow> int option" where
  "parseDate e s =
     (case s of
        [y1, y2, y3, y4, h1, m1, m2, h2, d1, d2] \<Rightarrow>
          (let y = 1000 * digitValue y1 + 100 * digitValue y2 + 10 * digitValue y3 + digitValue y4;
               m = 10 * digitValue m1 + digitValue m2;
               d = 10 * digitValue d1 + digitValue d2
           in if 1 \<le> m \<and> m \<le> 12 \<and> 1 \<le> d \<and> d \<le> 31
              then Some (msPerDay * makeDay y m d) else legacyParse e s)
      | _ \<Rightarrow> legacyParse e s)"

text \<open>The day number of the current local day: Day(LocalTime(now)).\<close>

definition localDay :: "env \<Rightarrow> int" where
  "localDay e = (now e + localTZA e) div msPerDay"

text \<open>\<open>today = new Date(); today.setHours(0, 0, 0, 0)\<close>: local midnight of the current
  local day, brought back to a time value (UTC) with the offset in force at that
  midnight.\<close>

definition today :: "env \<Rightarrow> int" where
  "today e = msPerDay * localDay e - midnightTZA e"

subsection \<open>The checks\<close>

record result =
  errors :: "string list"
  warnings :: "string list"

definition pushError :: "result \<Rightarrow> string \<Rightarrow> result" where
  "pushError r msg = r\<lparr>errors := errors r @ [msg]\<rparr>"

definition pushWarning :: "result \<Rightarrow> string \<Rightarrow> result" where
  "pushWarning r msg = r\<lparr>warnings := warnings r @ [msg]\<rparr>"

type_synonym fieldmap = "jsstring \<rightharpoonup> jsstring"

text \<open>The loop that fills \<open>fieldMap\<close>: \<open>fieldMap.set(match[1], match[2].trim())\<close>.\<close>

fun parseFields :: "fieldmap \<Rightarrow> jsstring list \<Rightarrow> fieldmap" where
  "parseFields fieldMap [] = fieldMap"
| "parseFields fieldMap (line # rest) =
     (case matchField line of
        None \<Rightarrow> parseFields fieldMap rest
      | Some (key, val) \<Rightarrow> parseFields (fieldMap(key \<mapsto> trim val)) rest)"

definition checkTags :: "fieldmap \<Rightarrow> result \<Rightarrow> result" where
  "checkTags fieldMap r =
     (case fieldMap (js ''tags'') of
        None \<Rightarrow> pushWarning r ''missing tags''
      | Some tagsValue \<Rightarrow>
          if 0x5B \<notin> set tagsValue then pushWarning r ''tags must be an array''
          else if emptyArrayPattern tagsValue then pushWarning r ''tags array cannot be empty''
          else r)"

definition checkDate :: "env \<Rightarrow> fieldmap \<Rightarrow> result \<Rightarrow> result" where
  "checkDate e fieldMap r =
     (case fieldMap (js ''date'') of
        None \<Rightarrow> pushError r ''missing date''
      | Some raw \<Rightarrow>
          (let dateValue = trim (removeQuotes raw) in
           if \<not> datePattern dateValue then pushError r ''invalid date format - use YYYY-MM-DD''
           else (case parseDate e dateValue of
                   None \<Rightarrow> pushError r ''invalid date value''
                 | Some date \<Rightarrow>
                     if date > today e then pushError r ''date cannot be in the future''
                     else r)))"

definition checkTitle :: "fieldmap \<Rightarrow> result \<Rightarrow> result" where
  "checkTitle fieldMap r =
     (case fieldMap (js ''title'') of
        None \<Rightarrow> pushError r ''missing title''
      | Some raw \<Rightarrow>
          (let titleValue = trim raw in
           if titleValue = [] \<or> titleValue = [0x22, 0x22] \<or> titleValue = [0x27, 0x27]
           then pushError r ''title cannot be empty''
           else r))"

definition validateMetadata :: "env \<Rightarrow> filesystem \<Rightarrow> jsstring \<Rightarrow> result" where
  "validateMetadata e fs filePath =
     (if \<not> existsSync fs filePath then \<lparr>errors = [''file not found''], warnings = []\<rparr>
      else (case extractFrontmatter fs filePath of
              None \<Rightarrow> \<lparr>errors = [''cannot read file''], warnings = []\<rparr>
            | Some frontmatter \<Rightarrow>
                (let fieldMap = parseFields Map.empty (splitLines frontmatter) in
                 checkTitle fieldMap
                   (checkDate e fieldMap
                      (checkTags fieldMap \<lparr>errors = [], warnings = []\<rparr>)))))"

subsection \<open>Vocabulary of the statements\<close>

text \<open>The field map that \<open>validateMetadata\<close> builds for a file with the given content.\<close>

definition fieldsOf :: "jsstring \<Rightarrow> fieldmap" where
  "fieldsOf content = parseFields Map.empty (splitLines (frontmatterOf content))"

text \<open>The issue codes of the three groups of checks.\<close>

definition tagsIssues :: "string list" where
  "tagsIssues = [''missing tags'', ''tags must be an array'', ''tags array cannot be empty'']"

definition dateIssues :: "string list" where
  "dateIssues = [''missing date'', ''invalid date format - use YYYY-MM-DD'',
                 ''invalid date value'', ''date cannot be in the future'']"

definition titleIssues :: "string list" where
  "titleIssues = [''missing title'', ''title cannot be empty'']"

text \<open>A legacy parser that rejects every string, and the environment of a process in a
  time zone of fixed offset with that parser.\<close>

definition noLegacyDate :: "jsstring \<Rightarrow> int option" where
  "noLegacyDate s = None"

definition fixedZone :: "int \<Rightarrow> int \<Rightarrow> env" where
  "fixedZone t offset =
     \<lparr>now = t, localTZA = offset, midnightTZA = offset, legacyParse = noLegacyDate\<rparr>"

text \<open>A file system with one readable file.\<close>

definition singleFile :: "jsstring \<Rightarrow> jsstring \<Rightarrow> filesystem" where
  "singleFile path content = (\<lambda>p. if p = path then Readable content else Missing)"

definition isQuote :: "nat \<Rightarrow> bool" where
  "isQuote c \<longleftrightarrow> c = 0x27 \<or> c = 0x22"

text \<open>
  The specification's wording of the preparation of the date value, "strip surrounding
  quote characters and whitespace": quote characters and whitespace go from both ends of
  the value, what stands between stays.  This is the reading of the specification, not
  the script's \<open>removeQuotes\<close> and \<open>trim\<close>.
\<close>

definition stripSurrounding_spec :: "jsstring \<Rightarrow> jsstring" where
  "stripSurrounding_spec s =
     rev (dropWhile (\<lambda>c. isQuote c \<or> isWhiteSpace c)
       (rev (dropWhile (\<lambda>c. isQuote c \<or> isWhiteSpace c) s)))"

section \<open>Evaluation\<close>

lemmas ev =
  js_def isWhiteSpace_def isLineTerminator_def isDigit_def isWordChar_def trim_def
  splitLines_def existsSync_def readFileSync_def isDelimiter_def collectLine_def scanStep_def
  frontmatterOf_def extractFrontmatter_def matchField_def emptyArrayPattern_def
  datePattern_def removeQuotes_def msPerDay_def dayFromYear_def inLeapYear_def
  daysBeforeMonth_def makeDay_def digitValue_def parseDate_def localDay_def today_def
  pushError_def pushWarning_def checkTags_def checkDate_def checkTitle_def
  validateMetadata_def fieldsOf_def isQuote_def stripSurrounding_spec_def singleFile_def
  noLegacyDate_def fixedZone_def Let_def

section \<open>The checks, one by one\<close>

lemma checkTags_errors: "errors (checkTags fm r) = errors r"
  by (simp add: checkTags_def pushWarning_def split: option.split)

lemma checkDate_warnings: "warnings (checkDate e fm r) = warnings r"
  by (simp add: checkDate_def pushError_def Let_def split: option.split)

lemma checkTitle_warnings: "warnings (checkTitle fm r) = warnings r"
  by (simp add: checkTitle_def pushError_def Let_def split: option.split)

lemma validateMetadata_readable:
  assumes "fs filePath = Readable content"
  shows "validateMetadata e fs filePath =
           checkTitle (fieldsOf content) (checkDate e (fieldsOf content)
             (checkTags (fieldsOf content) \<lparr>errors = [], warnings = []\<rparr>))"
  using assms
  by (simp add: validateMetadata_def existsSync_def extractFrontmatter_def readFileSync_def
      fieldsOf_def Let_def)

lemma emptyArrayPattern_iff:
  "emptyArrayPattern v \<longleftrightarrow> (\<exists>ws. v = 0x5B # ws @ [0x5D] \<and> (\<forall>c\<in>set ws. isWhiteSpace c))"
proof
  assume "emptyArrayPattern v"
  then obtain cs where v: "v = 0x5B # cs" and d: "dropWhile isWhiteSpace cs = [0x5D]"
    by (auto simp: emptyArrayPattern_def split: list.splits)
  from d have "cs = takeWhile isWhiteSpace cs @ [0x5D]"
    by (simp add: dropWhile_eq_Cons_conv)
  moreover have "\<forall>c\<in>set (takeWhile isWhiteSpace cs). isWhiteSpace c"
    by (auto dest: set_takeWhileD)
  ultimately show "\<exists>ws. v = 0x5B # ws @ [0x5D] \<and> (\<forall>c\<in>set ws. isWhiteSpace c)"
    using v by blast
next
  assume "\<exists>ws. v = 0x5B # ws @ [0x5D] \<and> (\<forall>c\<in>set ws. isWhiteSpace c)"
  then obtain ws where v: "v = 0x5B # ws @ [0x5D]" and ws: "\<forall>c\<in>set ws. isWhiteSpace c"
    by blast
  have "\<not> isWhiteSpace 0x5D" by (simp add: isWhiteSpace_def)
  with ws have "dropWhile isWhiteSpace (ws @ [0x5D]) = [0x5D]"
    by (simp add: dropWhile_append)
  with v show "emptyArrayPattern v" by (simp add: emptyArrayPattern_def)
qed

lemma tags_warnings:
  "warnings (checkTags fm r) = warnings r @
     (case fm (js ''tags'') of
        None \<Rightarrow> [''missing tags'']
      | Some v \<Rightarrow>
          if 0x5B \<notin> set v then [''tags must be an array'']
          else if (\<exists>ws. v = 0x5B # ws @ [0x5D] \<and> (\<forall>c\<in>set ws. isWhiteSpace c))
            then [''tags array cannot be empty'']
          else [])"
  by (auto simp: checkTags_def pushWarning_def emptyArrayPattern_iff split: option.split)

text \<open>What the date check and the title check append to the errors.\<close>

lemma checkDate_errors:
  "\<exists>ds. errors (checkDate e fm r) = errors r @ ds \<and> length ds \<le> 1 \<and> set ds \<subseteq> set dateIssues"
  by (simp add: checkDate_def pushError_def dateIssues_def Let_def split: option.split)

lemma checkTitle_errors:
  "\<exists>ts. errors (checkTitle fm r) = errors r @ ts \<and> length ts \<le> 1 \<and> set ts \<subseteq> set titleIssues"
  by (simp add: checkTitle_def pushError_def titleIssues_def Let_def split: option.split)

lemma errors_shape:
  assumes "fs filePath = Readable content"
  shows "\<exists>ds ts. errors (validateMetadata e fs filePath) = ds @ ts \<and>
           length ds \<le> 1 \<and> set ds \<subseteq> set dateIssues \<and> length ts \<le> 1 \<and> set ts \<subseteq> set titleIssues"
proof -
  let ?fm = "fieldsOf content"
  let ?r1 = "checkTags ?fm \<lparr>errors = [], warnings = []\<rparr>"
  obtain ds where ds: "errors (checkDate e ?fm ?r1) = errors ?r1 @ ds" "length ds \<le> 1"
    "set ds \<subseteq> set dateIssues"
    using checkDate_errors by blast
  obtain ts where ts: "errors (checkTitle ?fm (checkDate e ?fm ?r1)) = errors (checkDate e ?fm ?r1) @ ts"
    "length ts \<le> 1" "set ts \<subseteq> set titleIssues"
    using checkTitle_errors by blast
  have "errors ?r1 = []" by (simp add: checkTags_errors)
  with ds(1) ts(1) assms have "errors (validateMetadata e fs filePath) = ds @ ts"
    by (simp add: validateMetadata_readable)
  with ds(2,3) ts(2,3) show ?thesis by blast
qed

lemma issues_disjoint:
  "set dateIssues \<inter> set titleIssues = {}" "set tagsIssues \<inter> set dateIssues = {}"
  "set tagsIssues \<inter> set titleIssues = {}"
  by (simp_all add: dateIssues_def titleIssues_def tagsIssues_def)

text \<open>What each check appends depends on the field map alone, not on the result so far.\<close>

lemma checkDate_errors_from_empty:
  "errors (checkDate e fm r) = errors r @ errors (checkDate e fm \<lparr>errors = [], warnings = []\<rparr>)"
  by (simp add: checkDate_def pushError_def Let_def split: option.split)

lemma checkDate_errors_present:
  "fm (js ''date'') = Some raw \<Longrightarrow>
   errors (checkDate e fm \<lparr>errors = [], warnings = []\<rparr>) =
     (if \<not> datePattern (trim (removeQuotes raw)) then [''invalid date format - use YYYY-MM-DD'']
      else case parseDate e (trim (removeQuotes raw)) of
             None \<Rightarrow> [''invalid date value'']
           | Some t \<Rightarrow> if t > today e then [''date cannot be in the future''] else [])"
  by (simp add: checkDate_def pushError_def Let_def split: option.split)

lemma errors_date_then_title:
  assumes "fs filePath = Readable content"
  shows "\<exists>ts. set ts \<subseteq> set titleIssues \<and>
           errors (validateMetadata e fs filePath) =
             errors (checkDate e (fieldsOf content) \<lparr>errors = [], warnings = []\<rparr>) @ ts"
proof -
  let ?fm = "fieldsOf content"
  let ?r1 = "checkTags ?fm \<lparr>errors = [], warnings = []\<rparr>"
  obtain ts where ts: "errors (checkTitle ?fm (checkDate e ?fm ?r1)) = errors (checkDate e ?fm ?r1) @ ts"
    "set ts \<subseteq> set titleIssues"
    using checkTitle_errors by blast
  have "errors (checkDate e ?fm ?r1) = errors (checkDate e ?fm \<lparr>errors = [], warnings = []\<rparr>)"
    using checkDate_errors_from_empty [of e ?fm ?r1] by (simp add: checkTags_errors)
  with ts assms show ?thesis by (simp add: validateMetadata_readable)
qed

lemma removeQuotes_filter: "removeQuotes raw = filter (\<lambda>c. \<not> isQuote c) raw"
  by (simp add: removeQuotes_def isQuote_def)

lemma checkDate_errors_absent:
  "fm (js ''date'') = None \<Longrightarrow>
   errors (checkDate e fm \<lparr>errors = [], warnings = []\<rparr>) = [''missing date'']"
  by (simp add: checkDate_def pushError_def)

lemma checkTitle_errors_from_empty:
  "errors (checkTitle fm r) = errors r @ errors (checkTitle fm \<lparr>errors = [], warnings = []\<rparr>)"
  by (simp add: checkTitle_def pushError_def Let_def split: option.split)

lemma checkTitle_errors_present:
  "fm (js ''title'') = Some raw \<Longrightarrow>
   errors (checkTitle fm \<lparr>errors = [], warnings = []\<rparr>) =
     (if trim raw = [] \<or> trim raw = [0x22, 0x22] \<or> trim raw = [0x27, 0x27]
      then [''title cannot be empty''] else [])"
  by (simp add: checkTitle_def pushError_def Let_def)

lemma checkTitle_errors_absent:
  "fm (js ''title'') = None \<Longrightarrow>
   errors (checkTitle fm \<lparr>errors = [], warnings = []\<rparr>) = [''missing title'']"
  by (simp add: checkTitle_def pushError_def)

lemma errors_readable:
  assumes "fs filePath = Readable content"
  shows "errors (validateMetadata e fs filePath) =
           errors (checkDate e (fieldsOf content) \<lparr>errors = [], warnings = []\<rparr>) @
           errors (checkTitle (fieldsOf content) \<lparr>errors = [], warnings = []\<rparr>)"
proof -
  let ?fm = "fieldsOf content"
  let ?r1 = "checkTags ?fm \<lparr>errors = [], warnings = []\<rparr>"
  have "errors (checkTitle ?fm (checkDate e ?fm ?r1)) =
        errors (checkDate e ?fm ?r1) @ errors (checkTitle ?fm \<lparr>errors = [], warnings = []\<rparr>)"
    by (rule checkTitle_errors_from_empty)
  moreover have "errors (checkDate e ?fm ?r1) =
        errors (checkDate e ?fm \<lparr>errors = [], warnings = []\<rparr>)"
    using checkDate_errors_from_empty [of e ?fm ?r1] by (simp add: checkTags_errors)
  ultimately show ?thesis using assms by (simp add: validateMetadata_readable)
qed

lemma warnings_readable:
  assumes "fs filePath = Readable content"
  shows "warnings (validateMetadata e fs filePath) =
           warnings (checkTags (fieldsOf content) \<lparr>errors = [], warnings = []\<rparr>)"
  using assms by (simp add: validateMetadata_readable checkTitle_warnings checkDate_warnings)

lemma date_errors_are_date_issues:
  "set (errors (checkDate e fm \<lparr>errors = [], warnings = []\<rparr>)) \<subseteq> set dateIssues"
  using checkDate_errors [of e fm "\<lparr>errors = [], warnings = []\<rparr>"] by auto

lemma title_errors_are_title_issues:
  "set (errors (checkTitle fm \<lparr>errors = [], warnings = []\<rparr>)) \<subseteq> set titleIssues"
  using checkTitle_errors [of fm "\<lparr>errors = [], warnings = []\<rparr>"] by auto

text \<open>A missing-field issue is in the result exactly when the field map lacks the key.\<close>

lemma missing_date_iff:
  assumes "fs filePath = Readable content"
  shows "''missing date'' \<in> set (errors (validateMetadata e fs filePath)) \<longleftrightarrow>
         fieldsOf content (js ''date'') = None"
proof -
  have t: "''missing date'' \<notin> set (errors (checkTitle (fieldsOf content) \<lparr>errors = [], warnings = []\<rparr>))"
    using title_errors_are_title_issues [of "fieldsOf content"] by (auto simp: titleIssues_def)
  show ?thesis
  proof (cases "fieldsOf content (js ''date'')")
    case None
    then show ?thesis by (simp add: errors_readable [of fs filePath content e, OF assms] checkDate_errors_absent)
  next
    case (Some raw)
    then show ?thesis
      using t by (simp add: errors_readable [of fs filePath content e, OF assms]
          checkDate_errors_present split: option.split)
  qed
qed

lemma missing_title_iff:
  assumes "fs filePath = Readable content"
  shows "''missing title'' \<in> set (errors (validateMetadata e fs filePath)) \<longleftrightarrow>
         fieldsOf content (js ''title'') = None"
proof -
  have d: "''missing title'' \<notin> set (errors (checkDate e (fieldsOf content) \<lparr>errors = [], warnings = []\<rparr>))"
    using date_errors_are_date_issues [of e "fieldsOf content"] by (auto simp: dateIssues_def)
  show ?thesis
  proof (cases "fieldsOf content (js ''title'')")
    case None
    then show ?thesis by (simp add: errors_readable [of fs filePath content e, OF assms] checkTitle_errors_absent)
  next
    case (Some raw)
    then show ?thesis
      using d by (simp add: errors_readable [of fs filePath content e, OF assms] checkTitle_errors_present)
  qed
qed

lemma missing_tags_iff:
  assumes "fs filePath = Readable content"
  shows "''missing tags'' \<in> set (warnings (validateMetadata e fs filePath)) \<longleftrightarrow>
         fieldsOf content (js ''tags'') = None"
  using assms by (simp add: warnings_readable tags_warnings split: option.split)

section \<open>The scan of extractFrontmatter\<close>

lemma scanLines_closed:
  "\<forall>l\<in>set ls. \<not> isDelimiter l \<Longrightarrow> \<not> (inFrontmatter s \<and> delimiterCount s = 1) \<Longrightarrow>
   scanLines s ls = s"
  by (induction ls arbitrary: s) (auto simp: scanStep_def collectLine_def)

lemma scanLines_open:
  "inFrontmatter s \<Longrightarrow> delimiterCount s = 1 \<Longrightarrow>
   frontmatterLines (scanLines s ls) =
     frontmatterLines s @ takeWhile (\<lambda>l. \<not> isDelimiter l) ls"
  by (induction ls arbitrary: s) (auto simp: scanStep_def collectLine_def Let_def)

lemma scanLines_first_delimiter:
  assumes "\<forall>l\<in>set pre. \<not> isDelimiter l" and "isDelimiter d"
  shows "frontmatterLines
           (scanLines \<lparr>inFrontmatter = False, frontmatterLines = [], delimiterCount = 0\<rparr>
              (pre @ d # rest)) =
         takeWhile (\<lambda>l. \<not> isDelimiter l) rest"
  using assms(1)
proof (induction pre)
  case Nil
  show ?case using assms(2) by (simp add: scanStep_def Let_def scanLines_open)
next
  case (Cons l pre)
  then show ?case by (simp add: scanStep_def collectLine_def)
qed

lemma frontmatterOf_no_delimiter:
  "\<forall>l\<in>set (splitLines content). \<not> isDelimiter l \<Longrightarrow> frontmatterOf content = []"
  by (simp add: frontmatterOf_def scanLines_closed)

lemma frontmatterOf_first_delimiter:
  "splitLines content = pre @ d # rest \<Longrightarrow> \<forall>l\<in>set pre. \<not> isDelimiter l \<Longrightarrow> isDelimiter d \<Longrightarrow>
   frontmatterOf content = joinLines (takeWhile (\<lambda>l. \<not> isDelimiter l) rest)"
  by (simp add: frontmatterOf_def scanLines_first_delimiter)

section \<open>split and join\<close>

lemma splitFrom_prefix:
  "sep \<notin> set l \<Longrightarrow> splitFrom sep cur (l @ s) = splitFrom sep (cur @ l) s"
  by (induction l arbitrary: cur) auto

lemma splitFrom_joinLines:
  "\<forall>x\<in>set (l # ls). 0x0A \<notin> set x \<Longrightarrow> splitFrom 0x0A cur (joinLines (l # ls)) = (cur @ l) # ls"
proof (induction ls arbitrary: l cur)
  case Nil
  then show ?case using splitFrom_prefix [of "0x0A" l cur "[]"] by simp
next
  case (Cons l' ls)
  have "splitFrom 0x0A cur (joinLines (l # l' # ls)) =
        splitFrom 0x0A (cur @ l) (0x0A # joinLines (l' # ls))"
    using Cons.prems splitFrom_prefix [of "0x0A" l cur] by simp
  also have "\<dots> = (cur @ l) # splitFrom 0x0A [] (joinLines (l' # ls))" by simp
  also have "\<dots> = (cur @ l) # l' # ls" using Cons.IH [of l' "[]"] Cons.prems by simp
  finally show ?case .
qed

lemma splitLines_joinLines:
  "ls \<noteq> [] \<Longrightarrow> \<forall>x\<in>set ls. 0x0A \<notin> set x \<Longrightarrow> splitLines (joinLines ls) = ls"
  using splitFrom_joinLines [of "hd ls" "tl ls" "[]"] by (cases ls) (simp_all add: splitLines_def)

lemma splitFrom_no_sep:
  "sep \<notin> set cur \<Longrightarrow> \<forall>x\<in>set (splitFrom sep cur s). sep \<notin> set x"
proof (induction s arbitrary: cur)
  case Nil
  then show ?case by simp
next
  case (Cons c cs)
  show ?case
  proof (cases "c = sep")
    case True
    with Cons.prems Cons.IH [of "[]"] show ?thesis by simp
  next
    case False
    with Cons.prems Cons.IH [of "cur @ [c]"] show ?thesis by simp
  qed
qed

lemma splitLines_no_newline: "x \<in> set (splitLines s) \<Longrightarrow> 0x0A \<notin> set x"
  using splitFrom_no_sep [of "0x0A" "[]" s] by (simp add: splitLines_def)

section \<open>The field map\<close>

text \<open>What \<open>matchField\<close> accepts, as the regular expression reads: a run of word
  characters, a colon, whitespace, and a rest without line terminator that the whitespace
  does not run into.\<close>

lemma matchField_Some_iff:
  "matchField line = Some (key, val) \<longleftrightarrow>
     key \<noteq> [] \<and> (\<forall>c\<in>set key. isWordChar c) \<and>
     (\<exists>ws. line = key @ 0x3A # ws @ val \<and> (\<forall>c\<in>set ws. isWhiteSpace c)) \<and>
     (val = [] \<or> \<not> isWhiteSpace (hd val)) \<and> (\<forall>c\<in>set val. \<not> isLineTerminator c)"
proof
  assume m: "matchField line = Some (key, val)"
  then obtain after where k: "key = takeWhile isWordChar line" "key \<noteq> []"
    and d: "dropWhile isWordChar line = 0x3A # after"
    and v: "val = dropWhile isWhiteSpace after" "\<not> list_ex isLineTerminator val"
    by (auto simp: matchField_def Let_def split: if_splits list.splits)
  have "line = key @ 0x3A # after"
    using k(1) d takeWhile_dropWhile_id [of isWordChar line] by simp
  also have "after = takeWhile isWhiteSpace after @ val"
    using v(1) by simp
  finally have "line = key @ 0x3A # takeWhile isWhiteSpace after @ val" .
  moreover have "\<forall>c\<in>set (takeWhile isWhiteSpace after). isWhiteSpace c"
    by (auto dest: set_takeWhileD)
  moreover have "\<forall>c\<in>set key. isWordChar c"
    using k(1) by (auto dest: set_takeWhileD)
  moreover have "val = [] \<or> \<not> isWhiteSpace (hd val)"
    using v(1) hd_dropWhile [of isWhiteSpace after] by auto
  moreover have "\<forall>c\<in>set val. \<not> isLineTerminator c"
    using v(2) by (simp add: list_ex_iff)
  ultimately show "key \<noteq> [] \<and> (\<forall>c\<in>set key. isWordChar c) \<and>
     (\<exists>ws. line = key @ 0x3A # ws @ val \<and> (\<forall>c\<in>set ws. isWhiteSpace c)) \<and>
     (val = [] \<or> \<not> isWhiteSpace (hd val)) \<and> (\<forall>c\<in>set val. \<not> isLineTerminator c)"
    using k(2) by blast
next
  assume "key \<noteq> [] \<and> (\<forall>c\<in>set key. isWordChar c) \<and>
     (\<exists>ws. line = key @ 0x3A # ws @ val \<and> (\<forall>c\<in>set ws. isWhiteSpace c)) \<and>
     (val = [] \<or> \<not> isWhiteSpace (hd val)) \<and> (\<forall>c\<in>set val. \<not> isLineTerminator c)"
  then obtain ws where k: "key \<noteq> []" "\<forall>c\<in>set key. isWordChar c"
    and l: "line = key @ 0x3A # ws @ val" and ws: "\<forall>c\<in>set ws. isWhiteSpace c"
    and h: "val = [] \<or> \<not> isWhiteSpace (hd val)" and t: "\<forall>c\<in>set val. \<not> isLineTerminator c"
    by blast
  have c: "\<not> isWordChar 0x3A" by (simp add: isWordChar_def isDigit_def)
  have tk: "takeWhile isWordChar line = key"
    using k(2) l c by (simp add: takeWhile_append2)
  have dk: "dropWhile isWordChar line = 0x3A # ws @ val"
    using k(2) l c by (simp add: dropWhile_append2)
  have "dropWhile isWhiteSpace val = val"
    using h by (cases val) auto
  then have dv: "dropWhile isWhiteSpace (ws @ val) = val"
    using ws by (simp add: dropWhile_append2)
  show "matchField line = Some (key, val)"
    using tk dk dv k(1) t by (simp add: matchField_def Let_def list_ex_iff)
qed

lemma parseFields_append: "parseFields fm (xs @ ys) = parseFields (parseFields fm xs) ys"
  by (induction xs arbitrary: fm) (auto split: option.split)

lemma parseFields_other_keys:
  "\<forall>l\<in>set ls. \<forall>v. matchField l \<noteq> Some (key, v) \<Longrightarrow> parseFields fm ls key = fm key"
  by (induction ls arbitrary: fm) (auto split: option.split)

lemma parseFields_last:
  assumes "matchField line = Some (key, val)"
    and "\<forall>l\<in>set post. \<forall>v. matchField l \<noteq> Some (key, v)"
  shows "parseFields fm (pre @ line # post) key = Some (trim val)"
  using assms by (simp add: parseFields_append parseFields_other_keys)

lemma parseFields_None_iff:
  "parseFields fm ls key = None \<longleftrightarrow>
     fm key = None \<and> \<not> (\<exists>l\<in>set ls. \<exists>v. matchField l = Some (key, v))"
  by (induction ls arbitrary: fm) (auto split: option.split)

lemma matchField_empty: "matchField [] = None"
  by (simp add: matchField_def)

text \<open>Joining lines and splitting the result again gives the same field map.\<close>

lemma parseFields_split_join:
  assumes "\<forall>x\<in>set ls. 0x0A \<notin> set x"
  shows "parseFields fm (splitLines (joinLines ls)) = parseFields fm ls"
proof (cases ls)
  case Nil
  then show ?thesis by (simp add: splitLines_def matchField_empty)
next
  case (Cons l ls')
  then have "splitLines (joinLines ls) = ls" using assms splitLines_joinLines [of ls] by simp
  then show ?thesis by simp
qed

lemma isDelimiter_dashes: "isDelimiter (js ''---'')"
  by (simp add: ev)

section \<open>Files that are missing or cannot be read\<close>

text \<open>
  C3: for every path that does not name an existing file, \<open>validateMetadata\<close> returns
  exactly the errors \<open>["file not found"]\<close> and no warnings; nothing of the file, of the
  frontmatter or of the clock enters the result.
\<close>

theorem validateMetadata_file_not_found:
  "\<not> existsSync fs filePath \<Longrightarrow>
   validateMetadata e fs filePath = \<lparr>errors = [''file not found''], warnings = []\<rparr>"
  by (simp add: validateMetadata_def)

theorem validateMetadata_file_not_found_witness:
  "\<not> existsSync (\<lambda>p. if p = js ''a.mdx'' then Readable (js ''---'') else Missing) (js ''b.mdx'') \<and>
   validateMetadata (fixedZone 1705316400000 0)
     (\<lambda>p. if p = js ''a.mdx'' then Readable (js ''---'') else Missing) (js ''b.mdx'') =
     \<lparr>errors = [''file not found''], warnings = []\<rparr>"
  using validateMetadata_file_not_found
    [of "\<lambda>p. if p = js ''a.mdx'' then Readable (js ''---'') else Missing" "js ''b.mdx''"
        "fixedZone 1705316400000 0"]
  by (simp add: existsSync_def js_def)

text \<open>
  C6: \<open>extractFrontmatter\<close> returns the empty string for a readable file none of whose
  lines is a delimiter; it returns \<open>null\<close> exactly when reading the file fails; the two
  results differ; and for a path that exists but cannot be read \<open>validateMetadata\<close>
  returns exactly the errors \<open>["cannot read file"]\<close> and no warnings.
\<close>

theorem extractFrontmatter_empty_or_null:
  "(fs filePath = Readable content \<and> (\<forall>l\<in>set (splitLines content). \<not> isDelimiter l)
      \<longrightarrow> extractFrontmatter fs filePath = Some []) \<and>
   (extractFrontmatter fs filePath = None \<longleftrightarrow> readFileSync fs filePath = None) \<and>
   (readFileSync fs filePath = None \<longleftrightarrow> (\<forall>c. fs filePath \<noteq> Readable c)) \<and>
   Some [] \<noteq> (None :: jsstring option) \<and>
   (existsSync fs filePath \<and> extractFrontmatter fs filePath = None
      \<longrightarrow> validateMetadata e fs filePath = \<lparr>errors = [''cannot read file''], warnings = []\<rparr>)"
proof -
  have "extractFrontmatter fs filePath = Some []"
    if "fs filePath = Readable content" "\<forall>l\<in>set (splitLines content). \<not> isDelimiter l"
    using that by (simp add: extractFrontmatter_def readFileSync_def frontmatterOf_no_delimiter)
  moreover have "extractFrontmatter fs filePath = None \<longleftrightarrow> readFileSync fs filePath = None"
    by (simp add: extractFrontmatter_def split: option.split)
  moreover have "readFileSync fs filePath = None \<longleftrightarrow> (\<forall>c. fs filePath \<noteq> Readable c)"
    by (simp add: readFileSync_def split: fileState.split)
  moreover have "validateMetadata e fs filePath = \<lparr>errors = [''cannot read file''], warnings = []\<rparr>"
    if "existsSync fs filePath" "extractFrontmatter fs filePath = None"
    using that by (simp add: validateMetadata_def)
  ultimately show ?thesis by blast
qed

theorem extractFrontmatter_empty_or_null_witness:
  "extractFrontmatter (\<lambda>_. Readable (js ''# Just content, no frontmatter'')) (js ''a.mdx'') = Some [] \<and>
   extractFrontmatter (\<lambda>_. Unreadable) (js ''docs'') = None \<and>
   validateMetadata (fixedZone 1705316400000 0) (\<lambda>_. Unreadable) (js ''docs'') =
     \<lparr>errors = [''cannot read file''], warnings = []\<rparr>"
proof -
  let ?c = "js ''# Just content, no frontmatter''"
  let ?e = "fixedZone 1705316400000 0"
  have b: "\<forall>l\<in>set (splitLines ?c). \<not> isDelimiter l"
    by (simp add: ev)
  have d: "existsSync (\<lambda>_. Unreadable) (js ''docs'')" by (simp add: existsSync_def)
  have "extractFrontmatter (\<lambda>_. Readable ?c) (js ''a.mdx'') = Some []"
    using b extractFrontmatter_empty_or_null [of "\<lambda>_. Readable ?c" "js ''a.mdx''" ?c ?e]
    by simp
  moreover have "extractFrontmatter (\<lambda>_. Unreadable) (js ''docs'') = None \<and>
      validateMetadata ?e (\<lambda>_. Unreadable) (js ''docs'') =
        \<lparr>errors = [''cannot read file''], warnings = []\<rparr>"
    using d extractFrontmatter_empty_or_null [of "\<lambda>_. Unreadable" "js ''docs''" "[]" ?e]
    by simp
  ultimately show ?thesis by simp
qed

section \<open>Where the frontmatter begins and ends\<close>

text \<open>
  C7: for every readable file in which exactly one line is a delimiter (an opening
  delimiter that is never closed), \<open>extractFrontmatter\<close> returns all the lines after
  that delimiter, up to the end of the file, joined by newlines.
\<close>

theorem extractFrontmatter_unclosed:
  assumes "fs filePath = Readable content"
    and "splitLines content = pre @ d # post"
    and "isDelimiter d"
    and "\<forall>l\<in>set pre. \<not> isDelimiter l"
    and "\<forall>l\<in>set post. \<not> isDelimiter l"
  shows "extractFrontmatter fs filePath = Some (joinLines post)"
proof -
  have "frontmatterOf content = joinLines (takeWhile (\<lambda>l. \<not> isDelimiter l) post)"
    using assms(2,4,3) by (rule frontmatterOf_first_delimiter)
  moreover have "takeWhile (\<lambda>l. \<not> isDelimiter l) post = post"
    using assms(5) by (simp add: takeWhile_eq_all_conv)
  ultimately have "frontmatterOf content = joinLines post" by simp
  with assms(1) show ?thesis
    by (simp add: extractFrontmatter_def readFileSync_def)
qed

theorem extractFrontmatter_unclosed_witness:
  "extractFrontmatter (\<lambda>_. Readable (js ''---'' @ [0x0A] @ js ''title: Draft'' @ [0x0A] @ js ''# Body''))
     (js ''a.mdx'') = Some (js ''title: Draft'' @ [0x0A] @ js ''# Body'')"
proof -
  let ?c = "js ''---'' @ [0x0A] @ js ''title: Draft'' @ [0x0A] @ js ''# Body''"
  have s: "splitLines ?c = [] @ js ''---'' # [js ''title: Draft'', js ''# Body'']"
    by (simp add: ev)
  have d: "isDelimiter (js ''---'')" by (simp add: ev)
  have p: "\<forall>l\<in>set [js ''title: Draft'', js ''# Body'']. \<not> isDelimiter l" by (simp add: ev)
  show ?thesis
    using extractFrontmatter_unclosed [of "\<lambda>_. Readable ?c" "js ''a.mdx''" ?c "[]" "js ''---''"
        "[js ''title: Draft'', js ''# Body'']", OF refl s d _ p]
    by simp
qed

text \<open>
  C10: the frontmatter opens at the first delimiter line wherever it stands in the file;
  the lines before it are dropped, and the block runs to the next delimiter line or to
  the end of the file.  So a file whose first delimiter lines are two thematic breaks of
  its body has the lines between them extracted and validated as frontmatter: the field
  map is that of these lines, the result is the three checks on this map (a field is
  reported missing exactly when none of these lines carries it), and it is the result
  for the file that has those lines as its frontmatter at the top.
\<close>

theorem frontmatter_opens_at_first_delimiter:
  assumes "fs filePath = Readable content"
    and "splitLines content = pre @ d1 # rest"
    and "\<forall>l\<in>set pre. \<not> isDelimiter l"
    and "isDelimiter d1"
  shows "extractFrontmatter fs filePath =
           Some (joinLines (takeWhile (\<lambda>l. \<not> isDelimiter l) rest)) \<and>
         (\<forall>mid d2 post.
            rest = mid @ d2 # post \<and> (\<forall>l\<in>set mid. \<not> isDelimiter l) \<and> isDelimiter d2 \<longrightarrow>
              extractFrontmatter fs filePath = Some (joinLines mid) \<and>
              fieldsOf content = parseFields Map.empty mid \<and>
              validateMetadata e fs filePath =
                checkTitle (parseFields Map.empty mid)
                  (checkDate e (parseFields Map.empty mid)
                     (checkTags (parseFields Map.empty mid) \<lparr>errors = [], warnings = []\<rparr>)) \<and>
              (''missing tags'' \<in> set (warnings (validateMetadata e fs filePath)) \<longleftrightarrow>
                 \<not> (\<exists>l\<in>set mid. \<exists>v. matchField l = Some (js ''tags'', v))) \<and>
              (''missing date'' \<in> set (errors (validateMetadata e fs filePath)) \<longleftrightarrow>
                 \<not> (\<exists>l\<in>set mid. \<exists>v. matchField l = Some (js ''date'', v))) \<and>
              (''missing title'' \<in> set (errors (validateMetadata e fs filePath)) \<longleftrightarrow>
                 \<not> (\<exists>l\<in>set mid. \<exists>v. matchField l = Some (js ''title'', v))) \<and>
              validateMetadata e fs filePath =
                validateMetadata e (\<lambda>_. Readable (joinLines (js ''---'' # mid @ [js ''---''])))
                  filePath)"
proof (rule conjI)
  have fm: "frontmatterOf content = joinLines (takeWhile (\<lambda>l. \<not> isDelimiter l) rest)"
    using assms(2-4) by (rule frontmatterOf_first_delimiter)
  have ex: "extractFrontmatter fs filePath = Some (frontmatterOf content)"
    using assms(1) by (simp add: extractFrontmatter_def readFileSync_def)
  show "extractFrontmatter fs filePath =
          Some (joinLines (takeWhile (\<lambda>l. \<not> isDelimiter l) rest))"
    using ex fm by simp
  show "\<forall>mid d2 post.
            rest = mid @ d2 # post \<and> (\<forall>l\<in>set mid. \<not> isDelimiter l) \<and> isDelimiter d2 \<longrightarrow>
              extractFrontmatter fs filePath = Some (joinLines mid) \<and>
              fieldsOf content = parseFields Map.empty mid \<and>
              validateMetadata e fs filePath =
                checkTitle (parseFields Map.empty mid)
                  (checkDate e (parseFields Map.empty mid)
                     (checkTags (parseFields Map.empty mid) \<lparr>errors = [], warnings = []\<rparr>)) \<and>
              (''missing tags'' \<in> set (warnings (validateMetadata e fs filePath)) \<longleftrightarrow>
                 \<not> (\<exists>l\<in>set mid. \<exists>v. matchField l = Some (js ''tags'', v))) \<and>
              (''missing date'' \<in> set (errors (validateMetadata e fs filePath)) \<longleftrightarrow>
                 \<not> (\<exists>l\<in>set mid. \<exists>v. matchField l = Some (js ''date'', v))) \<and>
              (''missing title'' \<in> set (errors (validateMetadata e fs filePath)) \<longleftrightarrow>
                 \<not> (\<exists>l\<in>set mid. \<exists>v. matchField l = Some (js ''title'', v))) \<and>
              validateMetadata e fs filePath =
                validateMetadata e (\<lambda>_. Readable (joinLines (js ''---'' # mid @ [js ''---''])))
                  filePath"
  proof (intro allI impI, elim conjE)
    fix mid d2 post
    assume rest: "rest = mid @ d2 # post" and mid: "\<forall>l\<in>set mid. \<not> isDelimiter l"
      and d2: "isDelimiter d2"
    let ?top = "joinLines (js ''---'' # mid @ [js ''---''])"
    let ?fm = "parseFields Map.empty mid"
    have tw: "takeWhile (\<lambda>l. \<not> isDelimiter l) (mid @ d2 # post) = mid"
      using mid d2 by (simp add: takeWhile_append2)
    have here: "frontmatterOf content = joinLines mid" using fm rest tw by simp
    have sub: "set mid \<subseteq> set (splitLines content)" using assms(2) rest by auto
    then have nm: "\<forall>x\<in>set mid. 0x0A \<notin> set x"
      using splitLines_no_newline by auto
    then have nl: "\<forall>x\<in>set (js ''---'' # mid @ [js ''---'']). 0x0A \<notin> set x"
      by (auto simp: js_def)
    have "splitLines ?top = [] @ js ''---'' # (mid @ [js ''---''])"
      using splitLines_joinLines [OF _ nl] by simp
    moreover have "takeWhile (\<lambda>l. \<not> isDelimiter l) (mid @ [js ''---'']) = mid"
      using mid isDelimiter_dashes by (simp add: takeWhile_append2)
    ultimately have there: "frontmatterOf ?top = joinLines mid"
      using frontmatterOf_first_delimiter [of ?top "[]" "js ''---''" "mid @ [js ''---'']"]
        isDelimiter_dashes by simp
    have 1: "extractFrontmatter fs filePath = Some (joinLines mid)"
      using ex here by simp
    have 2: "fieldsOf content = ?fm"
      using here parseFields_split_join [OF nm, of Map.empty] by (simp add: fieldsOf_def)
    have 3: "validateMetadata e fs filePath =
        checkTitle ?fm (checkDate e ?fm (checkTags ?fm \<lparr>errors = [], warnings = []\<rparr>))"
      using assms(1) 2 by (simp add: validateMetadata_readable)
    have 4: "''missing tags'' \<in> set (warnings (validateMetadata e fs filePath)) \<longleftrightarrow>
        \<not> (\<exists>l\<in>set mid. \<exists>v. matchField l = Some (js ''tags'', v))"
      using missing_tags_iff [of fs filePath content e, OF assms(1)]
        parseFields_None_iff [of Map.empty mid "js ''tags''"] by (simp add: 2)
    have 5: "''missing date'' \<in> set (errors (validateMetadata e fs filePath)) \<longleftrightarrow>
        \<not> (\<exists>l\<in>set mid. \<exists>v. matchField l = Some (js ''date'', v))"
      using missing_date_iff [of fs filePath content e, OF assms(1)]
        parseFields_None_iff [of Map.empty mid "js ''date''"] by (simp add: 2)
    have 6: "''missing title'' \<in> set (errors (validateMetadata e fs filePath)) \<longleftrightarrow>
        \<not> (\<exists>l\<in>set mid. \<exists>v. matchField l = Some (js ''title'', v))"
      using missing_title_iff [of fs filePath content e, OF assms(1)]
        parseFields_None_iff [of Map.empty mid "js ''title''"] by (simp add: 2)
    have "fieldsOf content = fieldsOf ?top" using here there by (simp add: fieldsOf_def)
    then have 7: "validateMetadata e fs filePath =
        validateMetadata e (\<lambda>_. Readable ?top) filePath"
      using assms(1) by (simp add: validateMetadata_readable)
    show "extractFrontmatter fs filePath = Some (joinLines mid) \<and>
              fieldsOf content = parseFields Map.empty mid \<and>
              validateMetadata e fs filePath =
                checkTitle (parseFields Map.empty mid)
                  (checkDate e (parseFields Map.empty mid)
                     (checkTags (parseFields Map.empty mid) \<lparr>errors = [], warnings = []\<rparr>)) \<and>
              (''missing tags'' \<in> set (warnings (validateMetadata e fs filePath)) \<longleftrightarrow>
                 \<not> (\<exists>l\<in>set mid. \<exists>v. matchField l = Some (js ''tags'', v))) \<and>
              (''missing date'' \<in> set (errors (validateMetadata e fs filePath)) \<longleftrightarrow>
                 \<not> (\<exists>l\<in>set mid. \<exists>v. matchField l = Some (js ''date'', v))) \<and>
              (''missing title'' \<in> set (errors (validateMetadata e fs filePath)) \<longleftrightarrow>
                 \<not> (\<exists>l\<in>set mid. \<exists>v. matchField l = Some (js ''title'', v))) \<and>
              validateMetadata e fs filePath =
                validateMetadata e (\<lambda>_. Readable (joinLines (js ''---'' # mid @ [js ''---''])))
                  filePath"
      by (intro conjI) (rule 1, rule 2, rule 3, rule 4, rule 5, rule 6, rule 7)
  qed
qed

text \<open>A file without frontmatter at the top, whose body has a title line between two
  thematic breaks: the title is found, the date and the tags are reported missing.\<close>

theorem frontmatter_opens_at_first_delimiter_witness:
  "extractFrontmatter
     (\<lambda>_. Readable (js ''# Guide'' @ [0x0A] @ js ''---'' @ [0x0A] @ js ''title: Hidden'' @ [0x0A] @
                     js ''---'' @ [0x0A] @ js ''more text''))
     (js ''a.mdx'') = Some (js ''title: Hidden'') \<and>
   fieldsOf (js ''# Guide'' @ [0x0A] @ js ''---'' @ [0x0A] @ js ''title: Hidden'' @ [0x0A] @
             js ''---'' @ [0x0A] @ js ''more text'') (js ''title'') = Some (js ''Hidden'') \<and>
   validateMetadata (fixedZone 1705316400000 0)
     (\<lambda>_. Readable (js ''# Guide'' @ [0x0A] @ js ''---'' @ [0x0A] @ js ''title: Hidden'' @ [0x0A] @
                     js ''---'' @ [0x0A] @ js ''more text''))
     (js ''a.mdx'') = \<lparr>errors = [''missing date''], warnings = [''missing tags'']\<rparr> \<and>
   validateMetadata (fixedZone 1705316400000 0)
     (\<lambda>_. Readable (js ''---'' @ [0x0A] @ js ''title: Hidden'' @ [0x0A] @ js ''---''))
     (js ''a.mdx'') = \<lparr>errors = [''missing date''], warnings = [''missing tags'']\<rparr>"
proof -
  let ?c = "js ''# Guide'' @ [0x0A] @ js ''---'' @ [0x0A] @ js ''title: Hidden'' @ [0x0A] @
            js ''---'' @ [0x0A] @ js ''more text''"
  let ?e = "fixedZone 1705316400000 0"
  let ?mid = "[js ''title: Hidden'']"
  let ?fm = "parseFields Map.empty ?mid"
  have s: "splitLines ?c = [js ''# Guide''] @ js ''---'' # (?mid @ js ''---'' # [js ''more text''])"
    by (simp add: ev)
  have p: "\<forall>l\<in>set [js ''# Guide'']. \<not> isDelimiter l" by (simp add: ev)
  have m: "\<forall>l\<in>set ?mid. \<not> isDelimiter l" by (simp add: ev)
  have d: "isDelimiter (js ''---'')" by (simp add: ev)
  have j: "joinLines (js ''---'' # ?mid @ [js ''---'']) =
           js ''---'' @ [0x0A] @ js ''title: Hidden'' @ [0x0A] @ js ''---''"
    by simp
  have t: "joinLines ?mid = js ''title: Hidden''" by simp
  have f: "?fm (js ''title'') = Some (js ''Hidden'')" by (simp add: ev)
  have v: "checkTitle ?fm (checkDate ?e ?fm (checkTags ?fm \<lparr>errors = [], warnings = []\<rparr>)) =
           \<lparr>errors = [''missing date''], warnings = [''missing tags'']\<rparr>"
    by (simp add: ev)
  note T = frontmatter_opens_at_first_delimiter
         [where fs = "\<lambda>_. Readable ?c" and filePath = "js ''a.mdx''" and content = ?c
            and pre = "[js ''# Guide'']" and ?d1.0 = "js ''---''"
            and rest = "?mid @ js ''---'' # [js ''more text'']" and e = ?e, OF refl s p d,
          THEN conjunct2, rule_format, of ?mid "js ''---''" "[js ''more text'']",
          OF conjI [OF refl conjI [OF m d]]]
  have 1: "extractFrontmatter (\<lambda>_. Readable ?c) (js ''a.mdx'') = Some (js ''title: Hidden'')"
    using T [THEN conjunct1] by (simp only: t)
  have 2: "fieldsOf ?c (js ''title'') = Some (js ''Hidden'')"
    using T [THEN conjunct2, THEN conjunct1] f by simp
  have 3: "validateMetadata ?e (\<lambda>_. Readable ?c) (js ''a.mdx'') =
           \<lparr>errors = [''missing date''], warnings = [''missing tags'']\<rparr>"
    using T [THEN conjunct2, THEN conjunct2, THEN conjunct1] by (simp only: v)
  have "validateMetadata ?e (\<lambda>_. Readable ?c) (js ''a.mdx'') =
        validateMetadata ?e (\<lambda>_. Readable (joinLines (js ''---'' # ?mid @ [js ''---''])))
          (js ''a.mdx'')"
    using T [THEN conjunct2, THEN conjunct2, THEN conjunct2, THEN conjunct2, THEN conjunct2,
             THEN conjunct2] .
  then have 4: "validateMetadata ?e
        (\<lambda>_. Readable (js ''---'' @ [0x0A] @ js ''title: Hidden'' @ [0x0A] @ js ''---''))
        (js ''a.mdx'') = \<lparr>errors = [''missing date''], warnings = [''missing tags'']\<rparr>"
    using 3 by (simp only: j)
  show ?thesis
    by (intro conjI) (rule 1, rule 2, rule 3, rule 4)
qed

section \<open>Duplicate keys\<close>

text \<open>
  C8: when a field name stands on several \<open>key: value\<close> lines of the frontmatter, the
  field map that \<open>validateMetadata\<close> uses holds the trimmed value of the last of these
  lines, and the rule of that field is decided by this value: for \<open>tags\<close> the warnings,
  for \<open>date\<close> the date issue among the errors, for \<open>title\<close> the title issue among the
  errors are those of the last value, whatever the earlier lines with the same key say.
\<close>

theorem duplicate_key_last_wins:
  assumes "fs filePath = Readable content"
    and "splitLines (frontmatterOf content) = pre @ line # post"
    and "matchField line = Some (key, val)"
    and "\<forall>l\<in>set post. \<forall>v. matchField l \<noteq> Some (key, v)"
  shows "fieldsOf content key = Some (trim val) \<and>
         (key = js ''tags'' \<longrightarrow>
            warnings (validateMetadata e fs filePath) =
              (if 0x5B \<notin> set (trim val) then [''tags must be an array'']
               else if (\<exists>ws. trim val = 0x5B # ws @ [0x5D] \<and> (\<forall>c\<in>set ws. isWhiteSpace c))
                 then [''tags array cannot be empty'']
               else [])) \<and>
         (key = js ''date'' \<longrightarrow>
            (\<exists>ts. set ts \<subseteq> set titleIssues \<and>
               errors (validateMetadata e fs filePath) =
                 (if \<not> datePattern (trim (filter (\<lambda>c. \<not> isQuote c) (trim val)))
                  then [''invalid date format - use YYYY-MM-DD'']
                  else case parseDate e (trim (filter (\<lambda>c. \<not> isQuote c) (trim val))) of
                         None \<Rightarrow> [''invalid date value'']
                       | Some t \<Rightarrow>
                           if t > today e then [''date cannot be in the future''] else []) @ ts)) \<and>
         (key = js ''title'' \<longrightarrow>
            (\<exists>ds. set ds \<subseteq> set dateIssues \<and>
               errors (validateMetadata e fs filePath) =
                 ds @ (if trim (trim val) = [] \<or> trim (trim val) = [0x22, 0x22] \<or>
                          trim (trim val) = [0x27, 0x27]
                       then [''title cannot be empty''] else [])))"
proof (intro conjI impI)
  show f: "fieldsOf content key = Some (trim val)"
    using assms(2) parseFields_last [OF assms(3,4)] by (simp add: fieldsOf_def)
  note e = errors_readable [of fs filePath content e, OF assms(1)]
  {
    assume "key = js ''tags''"
    with f have "fieldsOf content (js ''tags'') = Some (trim val)" by simp
    then show "warnings (validateMetadata e fs filePath) =
        (if 0x5B \<notin> set (trim val) then [''tags must be an array'']
         else if (\<exists>ws. trim val = 0x5B # ws @ [0x5D] \<and> (\<forall>c\<in>set ws. isWhiteSpace c))
           then [''tags array cannot be empty'']
         else [])"
      using assms(1) by (simp add: warnings_readable tags_warnings)
  }
  {
    assume "key = js ''date''"
    with f have "fieldsOf content (js ''date'') = Some (trim val)" by simp
    then have "errors (checkDate e (fieldsOf content) \<lparr>errors = [], warnings = []\<rparr>) =
        (if \<not> datePattern (trim (filter (\<lambda>c. \<not> isQuote c) (trim val)))
         then [''invalid date format - use YYYY-MM-DD'']
         else case parseDate e (trim (filter (\<lambda>c. \<not> isQuote c) (trim val))) of
                None \<Rightarrow> [''invalid date value'']
              | Some t \<Rightarrow> if t > today e then [''date cannot be in the future''] else [])"
      using checkDate_errors_present [where fm = "fieldsOf content" and raw = "trim val" and e = e]
      by (simp add: removeQuotes_filter)
    then have "errors (validateMetadata e fs filePath) =
          (if \<not> datePattern (trim (filter (\<lambda>c. \<not> isQuote c) (trim val)))
           then [''invalid date format - use YYYY-MM-DD'']
           else case parseDate e (trim (filter (\<lambda>c. \<not> isQuote c) (trim val))) of
                  None \<Rightarrow> [''invalid date value'']
                | Some t \<Rightarrow> if t > today e then [''date cannot be in the future''] else []) @
          errors (checkTitle (fieldsOf content) \<lparr>errors = [], warnings = []\<rparr>)"
      by (simp only: e)
    with title_errors_are_title_issues [of "fieldsOf content"]
    show "\<exists>ts. set ts \<subseteq> set titleIssues \<and>
        errors (validateMetadata e fs filePath) =
          (if \<not> datePattern (trim (filter (\<lambda>c. \<not> isQuote c) (trim val)))
           then [''invalid date format - use YYYY-MM-DD'']
           else case parseDate e (trim (filter (\<lambda>c. \<not> isQuote c) (trim val))) of
                  None \<Rightarrow> [''invalid date value'']
                | Some t \<Rightarrow> if t > today e then [''date cannot be in the future''] else []) @ ts"
      by blast
  }
  {
    assume "key = js ''title''"
    with f have "fieldsOf content (js ''title'') = Some (trim val)" by simp
    then have "errors (checkTitle (fieldsOf content) \<lparr>errors = [], warnings = []\<rparr>) =
        (if trim (trim val) = [] \<or> trim (trim val) = [0x22, 0x22] \<or> trim (trim val) = [0x27, 0x27]
         then [''title cannot be empty''] else [])"
      by (rule checkTitle_errors_present)
    then have "errors (validateMetadata e fs filePath) =
          errors (checkDate e (fieldsOf content) \<lparr>errors = [], warnings = []\<rparr>) @
          (if trim (trim val) = [] \<or> trim (trim val) = [0x22, 0x22] \<or>
              trim (trim val) = [0x27, 0x27]
           then [''title cannot be empty''] else [])"
      by (simp only: e)
    with date_errors_are_date_issues [of e "fieldsOf content"]
    show "\<exists>ds. set ds \<subseteq> set dateIssues \<and>
        errors (validateMetadata e fs filePath) =
          ds @ (if trim (trim val) = [] \<or> trim (trim val) = [0x22, 0x22] \<or>
                   trim (trim val) = [0x27, 0x27]
                then [''title cannot be empty''] else [])"
      by blast
  }
qed

text \<open>A file whose first value of each field is good and whose last value is bad: the
  issues are those of the last values.\<close>

theorem duplicate_key_last_wins_witness:
  "fieldsOf (js ''---'' @ [0x0A] @ js ''title: Guide'' @ [0x0A] @ js ''title: '' @ [0x22, 0x22] @ [0x0A] @
             js ''date: 2024-01-15'' @ [0x0A] @ js ''date: 01/15/2024'' @ [0x0A] @
             js ''tags: [a]'' @ [0x0A] @ js ''tags: nope'' @ [0x0A] @ js ''---'')
     (js ''date'') = Some (js ''01/15/2024'') \<and>
   warnings (validateMetadata (fixedZone 1705316400000 0)
     (singleFile (js ''a.mdx'')
        (js ''---'' @ [0x0A] @ js ''title: Guide'' @ [0x0A] @ js ''title: '' @ [0x22, 0x22] @ [0x0A] @
         js ''date: 2024-01-15'' @ [0x0A] @ js ''date: 01/15/2024'' @ [0x0A] @
         js ''tags: [a]'' @ [0x0A] @ js ''tags: nope'' @ [0x0A] @ js ''---''))
     (js ''a.mdx'')) = [''tags must be an array''] \<and>
   ''invalid date format - use YYYY-MM-DD'' \<in> set (errors (validateMetadata (fixedZone 1705316400000 0)
     (singleFile (js ''a.mdx'')
        (js ''---'' @ [0x0A] @ js ''title: Guide'' @ [0x0A] @ js ''title: '' @ [0x22, 0x22] @ [0x0A] @
         js ''date: 2024-01-15'' @ [0x0A] @ js ''date: 01/15/2024'' @ [0x0A] @
         js ''tags: [a]'' @ [0x0A] @ js ''tags: nope'' @ [0x0A] @ js ''---''))
     (js ''a.mdx''))) \<and>
   ''title cannot be empty'' \<in> set (errors (validateMetadata (fixedZone 1705316400000 0)
     (singleFile (js ''a.mdx'')
        (js ''---'' @ [0x0A] @ js ''title: Guide'' @ [0x0A] @ js ''title: '' @ [0x22, 0x22] @ [0x0A] @
         js ''date: 2024-01-15'' @ [0x0A] @ js ''date: 01/15/2024'' @ [0x0A] @
         js ''tags: [a]'' @ [0x0A] @ js ''tags: nope'' @ [0x0A] @ js ''---''))
     (js ''a.mdx''))) \<and>
   errors (validateMetadata (fixedZone 1705316400000 0)
     (singleFile (js ''a.mdx'')
        (js ''---'' @ [0x0A] @ js ''title: Guide'' @ [0x0A] @ js ''title: '' @ [0x22, 0x22] @ [0x0A] @
         js ''date: 2024-01-15'' @ [0x0A] @ js ''date: 01/15/2024'' @ [0x0A] @
         js ''tags: [a]'' @ [0x0A] @ js ''tags: nope'' @ [0x0A] @ js ''---''))
     (js ''a.mdx'')) = [''invalid date format - use YYYY-MM-DD'', ''title cannot be empty'']"
proof -
  let ?c = "js ''---'' @ [0x0A] @ js ''title: Guide'' @ [0x0A] @ js ''title: '' @ [0x22, 0x22] @ [0x0A] @
            js ''date: 2024-01-15'' @ [0x0A] @ js ''date: 01/15/2024'' @ [0x0A] @
            js ''tags: [a]'' @ [0x0A] @ js ''tags: nope'' @ [0x0A] @ js ''---''"
  let ?e = "fixedZone 1705316400000 0"
  let ?fs = "singleFile (js ''a.mdx'') ?c"
  let ?r = "validateMetadata ?e ?fs (js ''a.mdx'')"
  let ?t1 = "js ''title: Guide''" let ?t2 = "js ''title: '' @ [0x22, 0x22]"
  let ?d1 = "js ''date: 2024-01-15''" let ?d2 = "js ''date: 01/15/2024''"
  let ?g1 = "js ''tags: [a]''" let ?g2 = "js ''tags: nope''"
  have r: "?fs (js ''a.mdx'') = Readable ?c" by (simp add: singleFile_def)
  have s: "splitLines (frontmatterOf ?c) = [?t1, ?t2, ?d1, ?d2, ?g1, ?g2]" by (simp add: ev)
  have st: "splitLines (frontmatterOf ?c) = [?t1] @ ?t2 # [?d1, ?d2, ?g1, ?g2]"
    and sd: "splitLines (frontmatterOf ?c) = [?t1, ?t2, ?d1] @ ?d2 # [?g1, ?g2]"
    and sg: "splitLines (frontmatterOf ?c) = [?t1, ?t2, ?d1, ?d2, ?g1] @ ?g2 # []"
    using s by simp_all
  have mt: "matchField ?t2 = Some (js ''title'', [0x22, 0x22])"
    and md: "matchField ?d2 = Some (js ''date'', js ''01/15/2024'')"
    and mg: "matchField ?g2 = Some (js ''tags'', js ''nope'')"
    by (simp_all add: ev)
  have nt: "\<forall>l\<in>set [?d1, ?d2, ?g1, ?g2]. \<forall>v. matchField l \<noteq> Some (js ''title'', v)"
    and nd: "\<forall>l\<in>set [?g1, ?g2]. \<forall>v. matchField l \<noteq> Some (js ''date'', v)"
    and ng: "\<forall>l\<in>set []. \<forall>v. matchField l \<noteq> Some (js ''tags'', v)"
    by (simp_all add: ev)
  have vt: "trim (trim [0x22, 0x22]) = [0x22, 0x22]"
    and vd: "trim (js ''01/15/2024'') = js ''01/15/2024''"
      "\<not> datePattern (trim (filter (\<lambda>c. \<not> isQuote c) (trim (js ''01/15/2024''))))"
    and vg: "0x5B \<notin> set (trim (js ''nope''))"
    by (simp_all add: ev)
  note T = duplicate_key_last_wins
    [where fs = ?fs and filePath = "js ''a.mdx''" and content = ?c and e = ?e and pre = "[?t1]"
       and line = ?t2 and post = "[?d1, ?d2, ?g1, ?g2]" and key = "js ''title''"
       and val = "[0x22, 0x22]", OF r st mt nt]
  note D = duplicate_key_last_wins
    [where fs = ?fs and filePath = "js ''a.mdx''" and content = ?c and e = ?e
       and pre = "[?t1, ?t2, ?d1]" and line = ?d2 and post = "[?g1, ?g2]" and key = "js ''date''"
       and val = "js ''01/15/2024''", OF r sd md nd]
  note G = duplicate_key_last_wins
    [where fs = ?fs and filePath = "js ''a.mdx''" and content = ?c and e = ?e
       and pre = "[?t1, ?t2, ?d1, ?d2, ?g1]" and line = ?g2 and post = "[]" and key = "js ''tags''"
       and val = "js ''nope''", OF r sg mg ng]
  have 1: "fieldsOf ?c (js ''date'') = Some (js ''01/15/2024'')"
    using D [THEN conjunct1] by (simp only: vd(1))
  have 2: "warnings ?r = [''tags must be an array'']"
    using G [THEN conjunct2, THEN conjunct1, THEN mp, OF refl] vg by simp
  obtain ts where "errors ?r =
      (if \<not> datePattern (trim (filter (\<lambda>c. \<not> isQuote c) (trim (js ''01/15/2024''))))
       then [''invalid date format - use YYYY-MM-DD'']
       else case parseDate ?e (trim (filter (\<lambda>c. \<not> isQuote c) (trim (js ''01/15/2024'')))) of
              None \<Rightarrow> [''invalid date value'']
            | Some t \<Rightarrow> if t > today ?e then [''date cannot be in the future''] else []) @ ts"
    using D [THEN conjunct2, THEN conjunct2, THEN conjunct1, THEN mp, OF refl] by blast
  then have "errors ?r = [''invalid date format - use YYYY-MM-DD''] @ ts"
    using vd(2) by simp
  then have 3: "''invalid date format - use YYYY-MM-DD'' \<in> set (errors ?r)" by simp
  obtain ds where "errors ?r =
      ds @ (if trim (trim [0x22, 0x22]) = [] \<or> trim (trim [0x22, 0x22]) = [0x22, 0x22] \<or>
               trim (trim [0x22, 0x22]) = [0x27, 0x27]
            then [''title cannot be empty''] else [])"
    using T [THEN conjunct2, THEN conjunct2, THEN conjunct2, THEN mp, OF refl] by blast
  then have "errors ?r = ds @ [''title cannot be empty'']"
    by (simp only: vt if_True simp_thms)
  then have 4: "''title cannot be empty'' \<in> set (errors ?r)" by simp
  have 5: "errors ?r = [''invalid date format - use YYYY-MM-DD'', ''title cannot be empty'']"
    by (simp add: ev)
  show ?thesis
    by (intro conjI) (rule 1, rule 2, rule 3, rule 4, rule 5)
qed

section \<open>The tags check\<close>

text \<open>
  C5: for every existing readable file the tags check adds to the warnings only, never to
  the errors, and the warnings of the result are exactly: \<open>"missing tags"\<close> when the
  field map has no \<open>tags\<close> key; \<open>"tags must be an array"\<close> when the value has no \<open>[\<close>;
  \<open>"tags array cannot be empty"\<close> when the whole value is \<open>[\<close>, whitespace or nothing,
  \<open>]\<close>; and nothing otherwise.
\<close>

theorem tags_check_warnings_only:
  assumes "fs filePath = Readable content"
  shows "warnings (validateMetadata e fs filePath) =
           (case fieldsOf content (js ''tags'') of
              None \<Rightarrow> [''missing tags'']
            | Some v \<Rightarrow>
                if 0x5B \<notin> set v then [''tags must be an array'']
                else if (\<exists>ws. v = 0x5B # ws @ [0x5D] \<and> (\<forall>c\<in>set ws. isWhiteSpace c))
                  then [''tags array cannot be empty'']
                else []) \<and>
         (\<forall>m\<in>set tagsIssues. m \<notin> set (errors (validateMetadata e fs filePath)))"
proof
  show "warnings (validateMetadata e fs filePath) =
           (case fieldsOf content (js ''tags'') of
              None \<Rightarrow> [''missing tags'']
            | Some v \<Rightarrow>
                if 0x5B \<notin> set v then [''tags must be an array'']
                else if (\<exists>ws. v = 0x5B # ws @ [0x5D] \<and> (\<forall>c\<in>set ws. isWhiteSpace c))
                  then [''tags array cannot be empty'']
                else [])"
    using assms
    by (simp add: validateMetadata_readable checkTitle_warnings checkDate_warnings tags_warnings)
  obtain ds ts where e: "errors (validateMetadata e fs filePath) = ds @ ts"
    and "set ds \<subseteq> set dateIssues" "set ts \<subseteq> set titleIssues"
    using assms errors_shape [of fs filePath content e] by blast
  then have "set (errors (validateMetadata e fs filePath)) \<subseteq> set dateIssues \<union> set titleIssues"
    by auto
  then show "\<forall>m\<in>set tagsIssues. m \<notin> set (errors (validateMetadata e fs filePath))"
    using issues_disjoint(2,3) by blast
qed

theorem tags_check_warnings_only_witness:
  "warnings (validateMetadata (fixedZone 1705316400000 0)
     (\<lambda>_. Readable (js ''---'' @ [0x0A] @ js ''title: Empty Tags'' @ [0x0A] @ js ''tags: [ ]'' @ [0x0A] @
                     js ''---'')) (js ''a.mdx'')) = [''tags array cannot be empty''] \<and>
   ''tags array cannot be empty'' \<notin> set (errors (validateMetadata (fixedZone 1705316400000 0)
     (\<lambda>_. Readable (js ''---'' @ [0x0A] @ js ''title: Empty Tags'' @ [0x0A] @ js ''tags: [ ]'' @ [0x0A] @
                     js ''---'')) (js ''a.mdx'')))"
proof -
  let ?c = "js ''---'' @ [0x0A] @ js ''title: Empty Tags'' @ [0x0A] @ js ''tags: [ ]'' @ [0x0A] @ js ''---''"
  have f: "fieldsOf ?c (js ''tags'') = Some [0x5B, 0x20, 0x5D]" by (simp add: ev)
  have x: "\<exists>ws. [0x5B, 0x20, 0x5D] = 0x5B # ws @ [0x5D] \<and> (\<forall>c\<in>set ws. isWhiteSpace c)"
    by (rule exI [of _ "[0x20]"]) (simp add: isWhiteSpace_def)
  have i: "''tags array cannot be empty'' \<in> set tagsIssues" by (simp add: tagsIssues_def)
  from tags_check_warnings_only
         [of "\<lambda>_. Readable ?c" "js ''a.mdx''" ?c "fixedZone 1705316400000 0", OF refl]
  show ?thesis unfolding f using x i by simp
qed

section \<open>The errors and their order\<close>

text \<open>
  C4: for every existing readable file the errors of \<open>validateMetadata\<close> hold at most one
  of the date issue codes (missing date, invalid format, invalid value, future date).
\<close>

theorem at_most_one_date_error:
  assumes "fs filePath = Readable content"
  shows "length (filter (\<lambda>m. m \<in> set dateIssues) (errors (validateMetadata e fs filePath))) \<le> 1"
proof -
  obtain ds ts where e: "errors (validateMetadata e fs filePath) = ds @ ts"
    and ds: "length ds \<le> 1" and ts: "set ts \<subseteq> set titleIssues"
    using assms errors_shape [of fs filePath content e] by blast
  have "filter (\<lambda>m. m \<in> set dateIssues) ts = []"
    using ts issues_disjoint(1) by (auto simp: filter_empty_conv)
  then have "length (filter (\<lambda>m. m \<in> set dateIssues) (ds @ ts)) \<le> length ds"
    by simp
  with e ds show ?thesis by simp
qed

theorem at_most_one_date_error_witness:
  "length (filter (\<lambda>m. m \<in> set dateIssues)
     (errors (validateMetadata (fixedZone 1705316400000 0)
        (\<lambda>_. Readable (js ''---'' @ [0x0A] @ js ''date: 2099-13-45'' @ [0x0A] @ js ''---''))
        (js ''a.mdx'')))) \<le> 1"
  using at_most_one_date_error
    [of "\<lambda>_. Readable (js ''---'' @ [0x0A] @ js ''date: 2099-13-45'' @ [0x0A] @ js ''---'')"
        "js ''a.mdx''" _ "fixedZone 1705316400000 0", OF refl] .

text \<open>
  C9: for every existing readable file the issue codes come in the order of the checks:
  the warnings hold tags issues only, the errors hold date and title issues only, and in
  the errors every date issue stands before every title issue.
\<close>

theorem issues_in_check_order:
  assumes "fs filePath = Readable content"
  shows "set (warnings (validateMetadata e fs filePath)) \<subseteq> set tagsIssues \<and>
         set (errors (validateMetadata e fs filePath)) \<subseteq> set dateIssues \<union> set titleIssues \<and>
         (\<forall>i j. i < length (errors (validateMetadata e fs filePath)) \<and>
                j < length (errors (validateMetadata e fs filePath)) \<and>
                errors (validateMetadata e fs filePath) ! i \<in> set dateIssues \<and>
                errors (validateMetadata e fs filePath) ! j \<in> set titleIssues \<longrightarrow> i < j)"
proof -
  let ?r = "validateMetadata e fs filePath"
  obtain ds ts where e: "errors ?r = ds @ ts"
    and ds: "set ds \<subseteq> set dateIssues" and ts: "set ts \<subseteq> set titleIssues"
    using assms errors_shape [of fs filePath content e] by blast
  have w: "set (warnings ?r) \<subseteq> set tagsIssues"
    using assms
    by (auto simp: validateMetadata_readable checkTitle_warnings checkDate_warnings tags_warnings
        tagsIssues_def split: option.splits if_splits)
  have s: "set (errors ?r) \<subseteq> set dateIssues \<union> set titleIssues"
    using e ds ts by auto
  have o: "i < j" if i: "i < length (errors ?r)" and j: "j < length (errors ?r)"
    and di: "errors ?r ! i \<in> set dateIssues" and tj: "errors ?r ! j \<in> set titleIssues" for i j
  proof -
    have "i < length ds"
    proof (rule ccontr)
      assume "\<not> i < length ds"
      then have "(ds @ ts) ! i = ts ! (i - length ds)" "i - length ds < length ts"
        using i e by (simp_all add: nth_append)
      then have "errors ?r ! i \<in> set titleIssues" using ts e by (metis nth_mem subsetD)
      with di issues_disjoint(1) show False by blast
    qed
    moreover have "\<not> j < length ds"
    proof
      assume "j < length ds"
      then have "errors ?r ! j \<in> set dateIssues" using ds e by (simp add: nth_append subsetD)
      with tj issues_disjoint(1) show False by blast
    qed
    ultimately show ?thesis by simp
  qed
  from w s o show ?thesis by blast
qed

theorem issues_in_check_order_witness:
  "errors (validateMetadata (fixedZone 1705316400000 0)
     (\<lambda>_. Readable (js ''---'' @ [0x0A] @ js ''title: '' @ [0x0A] @ js ''date: invalid-date'' @ [0x0A] @ js ''---''))
     (js ''a.mdx'')) = [''invalid date format - use YYYY-MM-DD'', ''title cannot be empty''] \<and>
   set (warnings (validateMetadata (fixedZone 1705316400000 0)
     (\<lambda>_. Readable (js ''---'' @ [0x0A] @ js ''title: '' @ [0x0A] @ js ''date: invalid-date'' @ [0x0A] @ js ''---''))
     (js ''a.mdx''))) \<subseteq> set tagsIssues"
proof -
  let ?c = "js ''---'' @ [0x0A] @ js ''title: '' @ [0x0A] @ js ''date: invalid-date'' @ [0x0A] @ js ''---''"
  let ?r = "validateMetadata (fixedZone 1705316400000 0) (\<lambda>_. Readable ?c) (js ''a.mdx'')"
  have "errors ?r = [''invalid date format - use YYYY-MM-DD'', ''title cannot be empty'']"
    by (simp add: ev)
  moreover have "set (warnings ?r) \<subseteq> set tagsIssues"
    using issues_in_check_order
      [of "\<lambda>_. Readable ?c" "js ''a.mdx''" ?c "fixedZone 1705316400000 0", OF refl]
    by (rule conjunct1)
  ultimately show ?thesis by (rule conjI)
qed

section \<open>The date check\<close>

text \<open>
  C2, as the script has it: for every existing readable file with a date field, the value
  loses every quote character, wherever it stands, and then the whitespace at both ends;
  the error \<open>"invalid date format - use YYYY-MM-DD"\<close> is produced exactly when what is
  left is not four digits, hyphen, two digits, hyphen, two digits, and it is then the only
  date issue among the errors.
\<close>

theorem date_format_error_iff:
  assumes "fs filePath = Readable content"
    and "fieldsOf content (js ''date'') = Some raw"
  shows "(''invalid date format - use YYYY-MM-DD'' \<in> set (errors (validateMetadata e fs filePath))
            \<longleftrightarrow> \<not> datePattern (trim (filter (\<lambda>c. \<not> isQuote c) raw))) \<and>
         (\<not> datePattern (trim (filter (\<lambda>c. \<not> isQuote c) raw)) \<longrightarrow>
            filter (\<lambda>m. m \<in> set dateIssues) (errors (validateMetadata e fs filePath)) =
              [''invalid date format - use YYYY-MM-DD''])"
proof -
  let ?fmt = "''invalid date format - use YYYY-MM-DD''"
  let ?ds = "errors (checkDate e (fieldsOf content) \<lparr>errors = [], warnings = []\<rparr>)"
  obtain ts where ts: "set ts \<subseteq> set titleIssues"
    and e: "errors (validateMetadata e fs filePath) = ?ds @ ts"
    using assms(1) errors_date_then_title [of fs filePath content e] by blast
  have nt: "?fmt \<notin> set ts" using ts by (auto simp: titleIssues_def)
  have ft: "filter (\<lambda>m. m \<in> set dateIssues) ts = []"
    using ts issues_disjoint(1) by (auto simp: filter_empty_conv)
  have ds: "?ds =
     (if \<not> datePattern (trim (filter (\<lambda>c. \<not> isQuote c) raw)) then [?fmt]
      else case parseDate e (trim (filter (\<lambda>c. \<not> isQuote c) raw)) of
             None \<Rightarrow> [''invalid date value'']
           | Some t \<Rightarrow> if t > today e then [''date cannot be in the future''] else [])"
    using assms(2) checkDate_errors_present [where fm = "fieldsOf content" and raw = raw and e = e]
    by (simp add: removeQuotes_filter)
  have "?fmt \<in> set ?ds \<longleftrightarrow> \<not> datePattern (trim (filter (\<lambda>c. \<not> isQuote c) raw))"
    unfolding ds by (simp split: option.split)
  moreover have "filter (\<lambda>m. m \<in> set dateIssues) ?ds = [?fmt]"
    if "\<not> datePattern (trim (filter (\<lambda>c. \<not> isQuote c) raw))"
    unfolding ds using that by (simp add: dateIssues_def)
  ultimately show ?thesis using e nt ft by simp
qed

theorem date_format_error_iff_witness:
  "''invalid date format - use YYYY-MM-DD'' \<in> set (errors (validateMetadata
       (fixedZone 1705316400000 0)
       (singleFile (js ''a.mdx'') (js ''---'' @ [0x0A] @ js ''date: 01/15/2024'' @ [0x0A] @ js ''---''))
       (js ''a.mdx''))) \<and>
   ''invalid date format - use YYYY-MM-DD'' \<notin> set (errors (validateMetadata
       (fixedZone 1705316400000 0)
       (singleFile (js ''a.mdx'') (js ''---'' @ [0x0A] @ js ''date: '' @ [0x22] @ js ''2024-01-15'' @ [0x22] @ [0x0A] @ js ''---''))
       (js ''a.mdx'')))"
proof -
  let ?e = "fixedZone 1705316400000 0"
  let ?c1 = "js ''---'' @ [0x0A] @ js ''date: 01/15/2024'' @ [0x0A] @ js ''---''"
  let ?c2 = "js ''---'' @ [0x0A] @ js ''date: '' @ [0x22] @ js ''2024-01-15'' @ [0x22] @ [0x0A] @ js ''---''"
  have r1: "singleFile (js ''a.mdx'') ?c1 (js ''a.mdx'') = Readable ?c1" by (simp add: singleFile_def)
  have r2: "singleFile (js ''a.mdx'') ?c2 (js ''a.mdx'') = Readable ?c2" by (simp add: singleFile_def)
  have f1: "fieldsOf ?c1 (js ''date'') = Some (js ''01/15/2024'')" by (simp add: ev)
  have f2: "fieldsOf ?c2 (js ''date'') = Some ([0x22] @ js ''2024-01-15'' @ [0x22])" by (simp add: ev)
  have p1: "\<not> datePattern (trim (filter (\<lambda>c. \<not> isQuote c) (js ''01/15/2024'')))" by (simp add: ev)
  have p2: "datePattern (trim (filter (\<lambda>c. \<not> isQuote c) ([0x22] @ js ''2024-01-15'' @ [0x22])))"
    by (simp add: ev)
  from date_format_error_iff
         [where fs = "singleFile (js ''a.mdx'') ?c1" and filePath = "js ''a.mdx''" and content = ?c1
            and raw = "js ''01/15/2024''" and e = ?e] r1 f1 p1
  have "''invalid date format - use YYYY-MM-DD'' \<in> set (errors (validateMetadata ?e
          (singleFile (js ''a.mdx'') ?c1) (js ''a.mdx'')))" by blast
  moreover from date_format_error_iff
         [where fs = "singleFile (js ''a.mdx'') ?c2" and filePath = "js ''a.mdx''" and content = ?c2
            and raw = "[0x22] @ js ''2024-01-15'' @ [0x22]" and e = ?e] r2 f2 p2
  have "''invalid date format - use YYYY-MM-DD'' \<notin> set (errors (validateMetadata ?e
          (singleFile (js ''a.mdx'') ?c2) (js ''a.mdx'')))" by blast
  ultimately show ?thesis by (rule conjI)
qed

text \<open>
  C2, with the specification's wording ("strip surrounding quote characters and
  whitespace"), fails on a value with a quote character inside: \<open>date: 20'24-01-15\<close> has nothing to
  strip at its ends and is not of the shape YYYY-MM-DD, yet the script removes the inner
  quote and reports no format error.
\<close>

theorem date_format_surrounding_counterexample:
  "fieldsOf (js ''---'' @ [0x0A] @ js ''date: 20'' @ [0x27] @ js ''24-01-15'' @ [0x0A] @ js ''---'')
     (js ''date'') = Some (js ''20'' @ [0x27] @ js ''24-01-15'') \<and>
   \<not> datePattern (stripSurrounding_spec (js ''20'' @ [0x27] @ js ''24-01-15'')) \<and>
   ''invalid date format - use YYYY-MM-DD'' \<notin> set (errors (validateMetadata
       (fixedZone 1705316400000 0)
       (singleFile (js ''a.mdx'')
          (js ''---'' @ [0x0A] @ js ''date: 20'' @ [0x27] @ js ''24-01-15'' @ [0x0A] @ js ''---''))
       (js ''a.mdx'')))"
  by (simp add: ev)

section \<open>The future check and the time zone\<close>

lemma future_error_iff:
  assumes "fs filePath = Readable content"
    and "fieldsOf content (js ''date'') = Some raw"
    and "datePattern (trim (removeQuotes raw))"
    and "parseDate e (trim (removeQuotes raw)) = Some t"
  shows "''date cannot be in the future'' \<in> set (errors (validateMetadata e fs filePath))
           \<longleftrightarrow> t > today e"
proof -
  obtain ts where ts: "set ts \<subseteq> set titleIssues"
    and e: "errors (validateMetadata e fs filePath) =
              errors (checkDate e (fieldsOf content) \<lparr>errors = [], warnings = []\<rparr>) @ ts"
    using assms(1) errors_date_then_title [of fs filePath content e] by blast
  have "''date cannot be in the future'' \<notin> set ts" using ts by (auto simp: titleIssues_def)
  with e show ?thesis
    using checkDate_errors_present [where fm = "fieldsOf content" and raw = raw and e = e]
      assms(2,3,4) by simp
qed

text \<open>A date that the legacy parser does not supply is UTC midnight of a day: a multiple
  of \<open>msPerDay\<close>.\<close>

lemma parseDate_midnight:
  "parseDate e s = Some t \<Longrightarrow> legacyParse e s = None \<Longrightarrow> t = msPerDay * (t div msPerDay)"
  by (auto simp: parseDate_def msPerDay_def Let_def split: list.splits if_splits)

text \<open>At UTC and west of it (offset from -24h to 0) the check is that of the calendar:
  a date is reported exactly when its day is after the current local day.\<close>

lemma future_check_west:
  assumes "- msPerDay < midnightTZA e" and "midnightTZA e \<le> 0"
  shows "msPerDay * D > today e \<longleftrightarrow> D > localDay e"
  using assms by (auto simp: today_def msPerDay_def)

text \<open>East of UTC (offset from 0 to 24h) the current local day itself is reported.\<close>

lemma future_check_east:
  assumes "0 < midnightTZA e" and "midnightTZA e < msPerDay"
  shows "msPerDay * D > today e \<longleftrightarrow> D \<ge> localDay e"
  using assms by (auto simp: today_def msPerDay_def)

text \<open>
  C1: the error \<open>"date cannot be in the future"\<close> should be produced exactly when the
  date is after the current day, and not for today's date.  The script compares UTC
  midnight of the date with local midnight of today: in a time zone one hour east of UTC,
  at noon of 2024-01-15, a file dated 2024-01-15 (the current local day) is reported as
  being in the future.
\<close>

theorem today_reported_as_future_east_of_utc:
  "localDay (fixedZone 1705316400000 3600000) = makeDay 2024 1 15 \<and>
   parseDate (fixedZone 1705316400000 3600000) (js ''2024-01-15'') =
     Some (msPerDay * makeDay 2024 1 15) \<and>
   fieldsOf (js ''---'' @ [0x0A] @ js ''title: Today'' @ [0x0A] @ js ''date: 2024-01-15'' @ [0x0A] @ js ''---'')
     (js ''date'') = Some (js ''2024-01-15'') \<and>
   errors (validateMetadata (fixedZone 1705316400000 3600000)
     (singleFile (js ''a.mdx'')
        (js ''---'' @ [0x0A] @ js ''title: Today'' @ [0x0A] @ js ''date: 2024-01-15'' @ [0x0A] @ js ''---''))
     (js ''a.mdx'')) = [''date cannot be in the future'']"
  by (simp add: ev)

section \<open>The cases of the script's test file\<close>

text \<open>The model agrees with \<open>docs-metadata.test.js\<close> on its inputs; the clock is set to a
  day of 2024 after the dates of the test files.\<close>

lemma test_valid_metadata:
  "validateMetadata (fixedZone 1718452800000 0)
     (singleFile (js ''valid.mdx'')
        (js ''---'' @ [0x0A] @ js ''title: Valid Document'' @ [0x0A] @ js ''date: 2024-01-15'' @ [0x0A] @
         js ''tags: ['' @ [0x22] @ js ''SigNoz Cloud'' @ [0x22] @ js '', '' @ [0x22] @ js ''Self-Host'' @
         [0x22] @ js '']'' @ [0x0A] @ js ''---'' @ [0x0A, 0x0A] @ js ''# Content'' @ [0x0A]))
     (js ''valid.mdx'') = \<lparr>errors = [], warnings = []\<rparr>"
  by (simp add: ev)

lemma test_multiple_errors_and_warnings:
  "validateMetadata (fixedZone 1718452800000 0)
     (singleFile (js ''multiple-issues.mdx'')
        (js ''---'' @ [0x0A] @ js ''date: invalid-date'' @ [0x0A] @ js ''---'' @ [0x0A, 0x0A] @
         js ''# Content'' @ [0x0A]))
     (js ''multiple-issues.mdx'') =
   \<lparr>errors = [''invalid date format - use YYYY-MM-DD'', ''missing title''],
    warnings = [''missing tags'']\<rparr>"
  by (simp add: ev)

lemma test_no_frontmatter:
  "extractFrontmatter (singleFile (js ''no-frontmatter.mdx'') (js ''# Just content, no frontmatter''))
     (js ''no-frontmatter.mdx'') = Some [] \<and>
   validateMetadata (fixedZone 1718452800000 0)
     (singleFile (js ''no-frontmatter.mdx'') (js ''# Just content''))
     (js ''no-frontmatter.mdx'') =
   \<lparr>errors = [''missing date'', ''missing title''], warnings = [''missing tags'']\<rparr>"
  by (simp add: ev)

lemma test_future_date:
  "errors (validateMetadata (fixedZone 1718452800000 0)
     (singleFile (js ''future-date.mdx'')
        (js ''---'' @ [0x0A] @ js ''title: Future Date Document'' @ [0x0A] @ js ''date: 2025-06-15'' @
         [0x0A] @ js ''tags: [x]'' @ [0x0A] @ js ''---''))
     (js ''future-date.mdx'')) = [''date cannot be in the future'']"
  by (simp add: ev)

end
